theory Spec2Isabelle
  imports Complex_Main
begin

section \<open>Calendar dates\<close>

text \<open>
  The dashboard (\<^verbatim>\<open>src/streamlit_app.py\<close>) works on day-granular timestamps: the
  column \<^verbatim>\<open>DATE_KST\<close> holds calendar dates, \<^verbatim>\<open>timedelta(days=k)\<close> shifts them by whole
  days, and the attributes \<^verbatim>\<open>.year\<close>, \<^verbatim>\<open>.month\<close>, \<^verbatim>\<open>.day\<close> and \<^verbatim>\<open>.weekday()\<close> read them.
  A date is modelled by its proleptic Gregorian ordinal (day 1 is 0001-01-01, the number
  \<^verbatim>\<open>date.toordinal()\<close> gives), so that adding a \<^verbatim>\<open>timedelta\<close> is integer addition. The
  conversion from an ordinal to year, month and day follows the standard library's
  \<^verbatim>\<open>_ord2ymd\<close>: 400-year, 100-year, 4-year and 1-year cycles, then a month estimate that is
  corrected downwards.
\<close>

type_synonym date = int

definition days_before_month :: "int \<Rightarrow> int" where
  "days_before_month m =
     (if m = 1 then 0 else if m = 2 then 31 else if m = 3 then 59 else if m = 4 then 90
      else if m = 5 then 120 else if m = 6 then 151 else if m = 7 then 181
      else if m = 8 then 212 else if m = 9 then 243 else if m = 10 then 273
      else if m = 11 then 304 else 334)"

definition days_in_month :: "int \<Rightarrow> int" where
  "days_in_month m =
     (if m = 2 then 28 else if m = 4 \<or> m = 6 \<or> m = 9 \<or> m = 11 then 30 else 31)"

definition ord2cycles :: "date \<Rightarrow> int \<times> int \<times> int \<times> int \<times> int" where
  "ord2cycles ordinal =
     (let n = ordinal - 1;
          n400 = n div 146097; n = n mod 146097;
          n100 = n div 36524; n = n mod 36524;
          n4 = n div 1461; n = n mod 1461;
          n1 = n div 365; n = n mod 365
      in (n400, n100, n4, n1, n))"

definition ord2ymd :: "date \<Rightarrow> int \<times> int \<times> int" where
  "ord2ymd ordinal =
     (case ord2cycles ordinal of (n400, n100, n4, n1, n) \<Rightarrow>
       (let year = n400 * 400 + 1 + n100 * 100 + n4 * 4 + n1
        in if n1 = 4 \<or> n100 = 4 then (year - 1, 12, 31)
           else
             (let leapyear = (n1 = 3 \<and> (n4 \<noteq> 24 \<or> n100 = 3));
                  month = (n + 50) div 32;
                  preceding = days_before_month month + (if month > 2 \<and> leapyear then 1 else 0)
              in if preceding > n
                 then (let month = month - 1;
                           preceding = preceding -
                             (days_in_month month + (if month = 2 \<and> leapyear then 1 else 0))
                       in (year, month, n - preceding + 1))
                 else (year, month, n - preceding + 1))))"

definition year_of :: "date \<Rightarrow> int" where
  "year_of d = fst (ord2ymd d)"

definition month_of :: "date \<Rightarrow> int" where
  "month_of d = fst (snd (ord2ymd d))"

definition day_of :: "date \<Rightarrow> int" where
  "day_of d = snd (snd (ord2ymd d))"

definition weekday_of :: "date \<Rightarrow> int" where
  \<comment> \<open>Monday is 0, Sunday is 6\<close>
  "weekday_of d = (d + 6) mod 7"

definition days_before_year :: "int \<Rightarrow> int" where
  \<comment> \<open>the ordinal of December 31 of the year before \<open>y\<close>; not part of the program, it
      serves to state between which ordinals a year lies\<close>
  "days_before_year y = (y - 1) * 365 + (y - 1) div 4 - (y - 1) div 100 + (y - 1) div 400"

section \<open>Missing values\<close>

text \<open>
  pandas gives \<^verbatim>\<open>NaT\<close> for the maximum of an empty date column and \<^verbatim>\<open>NaN\<close> for the mean
  of an empty numeric column, and neither raises. \<^verbatim>\<open>NaT\<close> absorbs \<^verbatim>\<open>timedelta\<close> arithmetic,
  its attributes and \<^verbatim>\<open>weekday()\<close> are \<^verbatim>\<open>NaN\<close>, \<^verbatim>\<open>NaN\<close> absorbs arithmetic, and every
  comparison or membership test with \<^verbatim>\<open>NaN\<close> is false. \<open>None\<close> stands for the missing
  value; a present floating-point number is modelled by the rational it denotes.
\<close>

type_synonym timestamp = "date option"
type_synonym pyfloat = "rat option"

definition ts_add :: "timestamp \<Rightarrow> int \<Rightarrow> timestamp" where
  "ts_add t k = map_option (\<lambda>d. d + k) t"

definition ts_year :: "timestamp \<Rightarrow> int option" where
  "ts_year t = map_option year_of t"

definition ts_month :: "timestamp \<Rightarrow> int option" where
  "ts_month t = map_option month_of t"

definition ts_day :: "timestamp \<Rightarrow> int option" where
  "ts_day t = map_option day_of t"

definition ts_weekday :: "timestamp \<Rightarrow> int option" where
  "ts_weekday t = map_option weekday_of t"

definition nan_eq :: "'a option \<Rightarrow> 'a option \<Rightarrow> bool" where
  "nan_eq a b = (case a of None \<Rightarrow> False | Some x \<Rightarrow> (case b of None \<Rightarrow> False | Some y \<Rightarrow> x = y))"

definition nan_in :: "'a option \<Rightarrow> 'a list \<Rightarrow> bool" where
  "nan_in a xs = (case a of None \<Rightarrow> False | Some x \<Rightarrow> x \<in> set xs)"

definition nan_sub :: "int option \<Rightarrow> int option \<Rightarrow> int option" where
  "nan_sub a b = (case a of None \<Rightarrow> None | Some x \<Rightarrow> (case b of None \<Rightarrow> None | Some y \<Rightarrow> Some (x - y)))"

definition nan_abs :: "int option \<Rightarrow> int option" where
  "nan_abs a = map_option abs a"

definition nan_le :: "int option \<Rightarrow> int option \<Rightarrow> bool" where
  "nan_le a b = (case a of None \<Rightarrow> False | Some x \<Rightarrow> (case b of None \<Rightarrow> False | Some y \<Rightarrow> x \<le> y))"

definition fmul :: "pyfloat \<Rightarrow> pyfloat \<Rightarrow> pyfloat" where
  "fmul a b = (case a of None \<Rightarrow> None | Some x \<Rightarrow> (case b of None \<Rightarrow> None | Some y \<Rightarrow> Some (x * y)))"

definition flt :: "pyfloat \<Rightarrow> pyfloat \<Rightarrow> bool" where
  "flt a b = (case a of None \<Rightarrow> False | Some x \<Rightarrow> (case b of None \<Rightarrow> False | Some y \<Rightarrow> x < y))"

definition py_range :: "int \<Rightarrow> int \<Rightarrow> int list" where
  \<comment> \<open>\<^verbatim>\<open>range(a, b)\<close>\<close>
  "py_range a b = [a..b - 1]"

section \<open>The visit table and the column operations\<close>

record visit =
  DATE_KST :: date
  DEP_NAME :: string
  visitors :: nat

datatype error = ZeroDivisionError | KeyError

definition series_mean :: "nat list \<Rightarrow> pyfloat" where
  \<comment> \<open>\<^verbatim>\<open>Series.mean()\<close>\<close>
  "series_mean xs =
     (if xs = [] then None else Some (of_nat (sum_list xs) / of_nat (length xs)))"

definition series_max :: "date list \<Rightarrow> timestamp" where
  \<comment> \<open>\<^verbatim>\<open>Series.max()\<close>\<close>
  "series_max ds = (case ds of [] \<Rightarrow> None | d # rest \<Rightarrow> Some (fold max rest d))"

definition py_tail :: "nat \<Rightarrow> 'a list \<Rightarrow> 'a list" where
  \<comment> \<open>\<^verbatim>\<open>xs[-k:]\<close> for \<open>k > 0\<close>\<close>
  "py_tail k xs = drop (length xs - k) xs"

definition boolean_index :: "'a list \<Rightarrow> bool list \<Rightarrow> 'a list" where
  \<comment> \<open>\<^verbatim>\<open>df[mask]\<close>\<close>
  "boolean_index rows bmask = map fst (filter snd (zip rows bmask))"

fun groupby :: "('k \<times> 'v) list \<Rightarrow> ('k \<rightharpoonup> 'v list) \<Rightarrow> ('k \<rightharpoonup> 'v list)" where
  "groupby [] groups = groups"
| "groupby ((k, v) # rest) groups =
     groupby rest (groups(k \<mapsto> (case groups k of None \<Rightarrow> [v] | Some vs \<Rightarrow> vs @ [v])))"

definition np_average :: "nat list \<Rightarrow> rat list \<Rightarrow> error + pyfloat" where
  \<comment> \<open>\<^verbatim>\<open>np.average(a, weights=wgt)\<close>, which raises when the weights sum to zero\<close>
  "np_average a wgt =
     (let scl = sum_list wgt
      in if scl = 0 then Inl ZeroDivisionError
         else Inr (Some (sum_list (map2 (\<lambda>x w. of_nat x * w) a wgt) / scl)))"

section \<open>The forecast (lines 342 to 414)\<close>

definition weekday_avgs :: "visit list \<Rightarrow> (int \<rightharpoonup> pyfloat)" where
  "weekday_avgs store_data =
     map_option series_mean \<circ>
       groupby (map (\<lambda>r. (weekday_of (DATE_KST r), visitors r)) store_data) Map.empty"

definition recent_avg :: "nat list \<Rightarrow> pyfloat" where
  "recent_avg visits =
     (let overall_avg = series_mean visits
      in if length visits \<ge> 30 then series_mean (py_tail 30 visits) else overall_avg)"

definition similar_dates :: "visit list \<Rightarrow> timestamp \<Rightarrow> visit list" where
  "similar_dates store_data last_year_date =
     boolean_index store_data
       (map2 (\<and>)
          (map (\<lambda>d. nan_eq (Some (month_of d)) (ts_month last_year_date))
             (map DATE_KST store_data))
          (map (\<lambda>d. nan_le (nan_abs (nan_sub (Some (day_of d)) (ts_day last_year_date))) (Some 5))
             (map DATE_KST store_data)))"

definition similar_weights :: "visit list \<Rightarrow> int option \<Rightarrow> rat list" where
  "similar_weights similar future_weekday =
     (let weekday = map (\<lambda>r. weekday_of (DATE_KST r)) similar;
          weight = replicate (length similar) 1
      in map2 (\<lambda>wd w. if nan_eq (Some wd) future_weekday then 2 else w) weekday weight)"

definition seasonal_factor :: "timestamp \<Rightarrow> rat" where
  \<comment> \<open>lines 383 to 387, repeated verbatim at lines 402 to 406\<close>
  "seasonal_factor future_date =
     (if nan_eq (ts_month future_date) (Some 12) \<and> nan_in (ts_day future_date) (py_range 20 26)
      then 13 / 10
      else if nan_in (ts_month future_date) [7, 8] \<and> nan_in (ts_day future_date) (py_range 15 31)
      then 12 / 10
      else 1)"

definition pred_value :: "visit list \<Rightarrow> (int \<rightharpoonup> pyfloat) \<Rightarrow> pyfloat \<Rightarrow> timestamp \<Rightarrow> error + pyfloat" where
  \<comment> \<open>lines 360 to 408: the prediction before the floor correction\<close>
  "pred_value store_data wd_avgs rec_avg future_date =
     (let last_year_date = ts_add future_date (- 365);
          similar = similar_dates store_data last_year_date
      in if length similar > 0
         then
           (let future_weekday = ts_weekday future_date;
                weight = similar_weights similar future_weekday
            in case np_average (map visitors similar) weight of
                 Inl e \<Rightarrow> Inl e
               | Inr base_pred \<Rightarrow>
                   (let years_diff = nan_sub (ts_year future_date) (ts_year last_year_date);
                        trend_factor = map_option (\<lambda>k. (11 / 10) powi k) years_diff
                    in Inr (fmul (fmul base_pred trend_factor) (Some (seasonal_factor future_date)))))
         else
           (let weekday = ts_weekday future_date;
                base_pred =
                  (case weekday of
                     None \<Rightarrow> fmul rec_avg (Some (9 / 10))
                   | Some w \<Rightarrow>
                       (case wd_avgs w of
                          Some avg \<Rightarrow> avg
                        | None \<Rightarrow> fmul rec_avg (Some (9 / 10))))
            in Inr (fmul base_pred (Some (seasonal_factor future_date)))))"

definition floor_correction :: "pyfloat \<Rightarrow> pyfloat \<Rightarrow> pyfloat" where
  \<comment> \<open>lines 411 and 412\<close>
  "floor_correction pred rec_avg =
     (if flt pred (fmul rec_avg (Some (5 / 10))) then fmul rec_avg (Some (8 / 10)) else pred)"

fun forecast_loop ::
  "visit list \<Rightarrow> (int \<rightharpoonup> pyfloat) \<Rightarrow> pyfloat \<Rightarrow> timestamp list \<Rightarrow> pyfloat list \<Rightarrow> error + pyfloat list"
where
  "forecast_loop store_data wd_avgs rec_avg [] future_preds = Inr future_preds"
| "forecast_loop store_data wd_avgs rec_avg (future_date # rest) future_preds =
     (case pred_value store_data wd_avgs rec_avg future_date of
        Inl e \<Rightarrow> Inl e
      | Inr p \<Rightarrow>
          forecast_loop store_data wd_avgs rec_avg rest
            (future_preds @ [floor_correction p rec_avg]))"

definition future_dates :: "visit list \<Rightarrow> timestamp list" where
  "future_dates store_data =
     (let last_date = series_max (map DATE_KST store_data)
      in map (\<lambda>i. ts_add last_date i) (py_range 1 31))"

definition forecaster :: "visit list \<Rightarrow> error + (timestamp list \<times> pyfloat list)" where
  "forecaster store_data =
     (case forecast_loop store_data (weekday_avgs store_data)
             (recent_avg (map visitors store_data)) (future_dates store_data) [] of
        Inl e \<Rightarrow> Inl e
      | Inr future_preds \<Rightarrow> Inr (future_dates store_data, future_preds))"

section \<open>The forecast table and its export (lines 423 to 491)\<close>

text \<open>
  A data frame is a list of named columns of equal length. The text a cell is written
  with in the export (how a timestamp and a floating-point number are printed) belongs
  to the library, so it is a parameter \<open>fmt\<close> of the export.
\<close>

datatype cell = TsCell timestamp | NumCell pyfloat | StrCell string

type_synonym dataframe = "(string \<times> cell list) list"

definition future_data :: "timestamp list \<Rightarrow> pyfloat list \<Rightarrow> dataframe" where
  "future_data fdates fpreds =
     [(''date'', map TsCell fdates),
      (''visitors'', map NumCell fpreds),
      (''type'', replicate (length fdates) (StrCell ''predicted''))]"

definition weekday_names :: "int \<rightharpoonup> string" where
  "weekday_names =
     [0 \<mapsto> ''Monday'', 1 \<mapsto> ''Tuesday'', 2 \<mapsto> ''Wednesday'', 3 \<mapsto> ''Thursday'',
      4 \<mapsto> ''Friday'', 5 \<mapsto> ''Saturday'', 6 \<mapsto> ''Sunday'']"

definition day_of_week_column :: "timestamp list \<Rightarrow> cell list" where
  "day_of_week_column fdates =
     map (\<lambda>d. case ts_weekday d of
                 None \<Rightarrow> NumCell None
               | Some w \<Rightarrow> (case weekday_names w of
                              None \<Rightarrow> NumCell None
                            | Some name \<Rightarrow> StrCell name)) fdates"

definition df_setitem :: "dataframe \<Rightarrow> string \<Rightarrow> cell list \<Rightarrow> dataframe" where
  \<comment> \<open>\<^verbatim>\<open>df[name] = col\<close>\<close>
  "df_setitem df name col =
     (if name \<in> set (map fst df)
      then map (\<lambda>(n, c). if n = name then (n, col) else (n, c)) df
      else df @ [(name, col)])"

fun df_getitem :: "dataframe \<Rightarrow> string list \<Rightarrow> error + dataframe" where
  \<comment> \<open>\<^verbatim>\<open>df[[name, ...]]\<close>\<close>
  "df_getitem df [] = Inr []"
| "df_getitem df (name # names) =
     (case map_of df name of
        None \<Rightarrow> Inl KeyError
      | Some col \<Rightarrow>
          (case df_getitem df names of
             Inl e \<Rightarrow> Inl e
           | Inr rest \<Rightarrow> Inr ((name, col) # rest)))"

fun join :: "string \<Rightarrow> string list \<Rightarrow> string" where
  "join sep [] = []"
| "join sep [x] = x"
| "join sep (x # y # ys) = x @ sep @ join sep (y # ys)"

definition df_rows :: "dataframe \<Rightarrow> cell list list" where
  "df_rows df =
     (case df of
        [] \<Rightarrow> []
      | (name, col) # rest \<Rightarrow> map (\<lambda>i. map (\<lambda>(n, c). c ! i) df) [0..<length col])"

definition csv_lines :: "(cell \<Rightarrow> string) \<Rightarrow> dataframe \<Rightarrow> string list" where
  \<comment> \<open>the header line, then one line per row\<close>
  "csv_lines fmt df =
     join '','' (map fst df) # map (\<lambda>row. join '','' (map fmt row)) (df_rows df)"

definition to_csv :: "(cell \<Rightarrow> string) \<Rightarrow> dataframe \<Rightarrow> string" where
  \<comment> \<open>\<^verbatim>\<open>df.to_csv(index=False)\<close>: every line ends with a line feed\<close>
  "to_csv fmt df = concat (map (\<lambda>line. line @ [CHR 0x0A]) (csv_lines fmt df))"

section \<open>The page: sidebar filters and the forecast tab\<close>

datatype tab3_output = Rendered dataframe string | St_error error

definition select_store :: "visit list \<Rightarrow> string \<Rightarrow> visit list" where
  \<comment> \<open>lines 327 and 328\<close>
  "select_store visits_df pred_store =
     sort_key DATE_KST (filter (\<lambda>r. DEP_NAME r = pred_store) visits_df)"

definition tab3 :: "(cell \<Rightarrow> string) \<Rightarrow> visit list \<Rightarrow> string \<Rightarrow> tab3_output" where
  \<comment> \<open>the \<^verbatim>\<open>try\<close> block of lines 316 to 509: any exception becomes an error message\<close>
  "tab3 fmt visits_df pred_store =
     (let store_data = select_store visits_df pred_store
      in case forecaster store_data of
           Inl e \<Rightarrow> St_error e
         | Inr (fdates, fpreds) \<Rightarrow>
             (let fdata = future_data fdates fpreds;
                  fdata = df_setitem fdata ''day_of_week'' (day_of_week_column fdates)
              in case df_getitem fdata [''date'', ''visitors''] of
                   Inl e \<Rightarrow> St_error e
                 | Inr selected \<Rightarrow> Rendered fdata (to_csv fmt selected)))"

definition filtered_visits :: "visit list \<Rightarrow> date list \<Rightarrow> string list \<Rightarrow> visit list" where
  \<comment> \<open>lines 86 to 104\<close>
  "filtered_visits visits_df date_range selected_stores =
     (let fv = visits_df;
          fv = (if length date_range = 2
                then filter (\<lambda>r. DATE_KST r \<ge> date_range ! 0 \<and> DATE_KST r \<le> date_range ! 1) fv
                else fv)
      in if selected_stores \<noteq> []
         then filter (\<lambda>r. DEP_NAME r \<in> set selected_stores) fv
         else fv)"

record page =
  trend_input :: "visit list"
  forecast_output :: tab3_output

definition dashboard ::
  "(cell \<Rightarrow> string) \<Rightarrow> visit list \<Rightarrow> date list \<Rightarrow> string list \<Rightarrow> string \<Rightarrow> page" where
  \<comment> \<open>one run of the script: the trend tab reads the filtered table, the forecast tab
      reads \<^verbatim>\<open>visits_df\<close>\<close>
  "dashboard fmt visits_df date_range selected_stores pred_store =
     \<lparr> trend_input = filtered_visits visits_df date_range selected_stores,
       forecast_output = tab3 fmt visits_df pred_store \<rparr>"

section \<open>The specification's formulations\<close>

text \<open>
  These follow the words of the specification, to be compared with the definitions
  above, which follow the code.
\<close>

definition spec_similar :: "date \<Rightarrow> visit \<Rightarrow> bool" where
  "spec_similar last_year_date r =
     (month_of (DATE_KST r) = month_of last_year_date
      \<and> \<bar>day_of (DATE_KST r) - day_of last_year_date\<bar> \<le> 5)"

definition spec_weight :: "date \<Rightarrow> visit \<Rightarrow> rat" where
  "spec_weight target r = (if weekday_of (DATE_KST r) = weekday_of target then 2 else 1)"

definition spec_weighted_mean :: "date \<Rightarrow> visit list \<Rightarrow> rat" where
  "spec_weighted_mean target rs =
     (\<Sum>r\<leftarrow>rs. of_nat (visitors r) * spec_weight target r) / (\<Sum>r\<leftarrow>rs. spec_weight target r)"

definition spec_seasonal_factor :: "date \<Rightarrow> rat" where
  "spec_seasonal_factor d =
     (if month_of d = 12 \<and> 20 \<le> day_of d \<and> day_of d \<le> 25 then 13 / 10
      else if (month_of d = 7 \<or> month_of d = 8) \<and> 15 \<le> day_of d \<and> day_of d \<le> 30 then 12 / 10
      else 1)"

definition spec_weekday_mean :: "visit list \<Rightarrow> int \<Rightarrow> rat" where
  "spec_weekday_mean store_data w =
     of_nat (\<Sum>r\<leftarrow>filter (\<lambda>r. weekday_of (DATE_KST r) = w) store_data. visitors r)
       / of_nat (length (filter (\<lambda>r. weekday_of (DATE_KST r) = w) store_data))"

definition spec_recent_avg :: "visit list \<Rightarrow> rat" where
  "spec_recent_avg store_data =
     (if length store_data \<ge> 30
      then of_nat (\<Sum>r\<leftarrow>drop (length store_data - 30) store_data. visitors r) / 30
      else of_nat (\<Sum>r\<leftarrow>store_data. visitors r) / of_nat (length store_data))"

section \<open>Example data\<close>

text \<open>
  A small history of store \<open>A\<close>: 2024-01-03 (a Wednesday), 2024-01-05 (a Friday),
  2024-01-20 (a Saturday) and 2024-12-31 (a Tuesday); and a history of one record.
\<close>

definition example_store :: "visit list" where
  "example_store =
     [\<lparr>DATE_KST = 738888, DEP_NAME = ''A'', visitors = 100\<rparr>,
      \<lparr>DATE_KST = 738890, DEP_NAME = ''A'', visitors = 300\<rparr>,
      \<lparr>DATE_KST = 738905, DEP_NAME = ''A'', visitors = 500\<rparr>,
      \<lparr>DATE_KST = 739251, DEP_NAME = ''A'', visitors = 100\<rparr>]"

definition example_single :: "visit list" where
  "example_single = [\<lparr>DATE_KST = 739251, DEP_NAME = ''A'', visitors = 100\<rparr>]"

section \<open>Calendar facts\<close>

lemma year_of_cycles:
  "year_of d =
     (case ord2cycles d of (n400, n100, n4, n1, n) \<Rightarrow>
        n400 * 400 + 1 + n100 * 100 + n4 * 4 + n1 - (if n1 = 4 \<or> n100 = 4 then 1 else 0))"
  by (simp add: year_of_def ord2ymd_def Let_def split: prod.splits)

lemma cycles_facts:
  assumes "ord2cycles d = (n400, n100, n4, n1, n)"
  shows "d - 1 = 146097 * n400 + 36524 * n100 + 1461 * n4 + 365 * n1 + n"
    and "0 \<le> n100" "n100 \<le> 4" "0 \<le> n4" "n4 \<le> 24" "0 \<le> n1" "n1 \<le> 4" "0 \<le> n" "n < 365"
    and "n100 = 4 \<Longrightarrow> n4 = 0 \<and> n1 = 0 \<and> n = 0"
    and "n1 = 4 \<Longrightarrow> n = 0"
    and "n4 = 24 \<Longrightarrow> n100 \<le> 3 \<Longrightarrow> n1 \<le> 3"
proof -
  define a where "a = d - 1"
  define r0 where "r0 = a mod 146097"
  define r1 where "r1 = r0 mod 36524"
  define r2 where "r2 = r1 mod 1461"
  have e: "n400 = a div 146097" "n100 = r0 div 36524" "n4 = r1 div 1461" "n1 = r2 div 365"
     "n = r2 mod 365"
    using assms by (simp_all add: ord2cycles_def Let_def a_def r0_def r1_def r2_def)
  have b0: "0 \<le> r0" "r0 < 146097" by (simp_all add: r0_def)
  have b1: "0 \<le> r1" "r1 < 36524" by (simp_all add: r1_def)
  have b2: "0 \<le> r2" "r2 < 1461" by (simp_all add: r2_def)
  have d0: "a = 146097 * n400 + r0" by (simp add: e r0_def)
  have d1: "r0 = 36524 * n100 + r1" by (simp add: e r1_def)
  have d2: "r1 = 1461 * n4 + r2" by (simp add: e r2_def)
  have d3: "r2 = 365 * n1 + n" by (simp add: e)
  show "d - 1 = 146097 * n400 + 36524 * n100 + 1461 * n4 + 365 * n1 + n"
    using d0 d1 d2 d3 by (simp add: a_def)
  show nn: "0 \<le> n" "n < 365" by (simp_all add: e)
  show "0 \<le> n100" using b0 b1 d1 by linarith
  show "n100 \<le> 4" using b0 b1 d1 by linarith
  show n4: "0 \<le> n4" using b1 b2 d2 by linarith
  show "n4 \<le> 24" using b1 b2 d2 by linarith
  show n1: "0 \<le> n1" using b2 nn d3 by linarith
  show "n1 \<le> 4" using b2 nn d3 by linarith
  show "n100 = 4 \<Longrightarrow> n4 = 0 \<and> n1 = 0 \<and> n = 0"
  proof -
    assume "n100 = 4"
    then have "r1 = 0" using b0 b1 d1 by linarith
    then have "n4 = 0" "r2 = 0" using n4 b2 d2 by linarith+
    then have "n1 = 0" "n = 0" using n1 nn d3 by linarith+
    with \<open>n4 = 0\<close> show ?thesis by simp
  qed
  show "n1 = 4 \<Longrightarrow> n = 0" using b2 d3 nn by linarith
  show "n4 = 24 \<Longrightarrow> n100 \<le> 3 \<Longrightarrow> n1 \<le> 3" using b1 d2 d3 nn by linarith
qed

lemma days_before_year_cycles:
  assumes "0 \<le> n100" "n100 \<le> 3" "0 \<le> n4" "n4 \<le> 24" "0 \<le> n1" "n1 \<le> 3"
  shows "days_before_year (n400 * 400 + 1 + n100 * 100 + n4 * 4 + n1)
           = 146097 * n400 + 36524 * n100 + 1461 * n4 + 365 * n1"
proof -
  define y where "y = n400 * 400 + n100 * 100 + n4 * 4 + n1"
  have q4: "y div 4 = 100 * n400 + 25 * n100 + n4"
    by (rule int_div_pos_eq [where r = n1]) (use assms in \<open>simp_all add: y_def\<close>)
  have q100: "y div 100 = 4 * n400 + n100"
    by (rule int_div_pos_eq [where r = "4 * n4 + n1"]) (use assms in \<open>simp_all add: y_def\<close>)
  have q400: "y div 400 = n400"
    by (rule int_div_pos_eq [where r = "100 * n100 + 4 * n4 + n1"])
       (use assms in \<open>simp_all add: y_def\<close>)
  have "n400 * 400 + 1 + n100 * 100 + n4 * 4 + n1 - 1 = y" by (simp add: y_def)
  then have "days_before_year (n400 * 400 + 1 + n100 * 100 + n4 * 4 + n1)
      = y * 365 + y div 4 - y div 100 + y div 400"
    by (simp add: days_before_year_def)
  also have "\<dots> = 146097 * n400 + 36524 * n100 + 1461 * n4 + 365 * n1"
    unfolding q4 q100 q400 by (simp add: y_def)
  finally show ?thesis .
qed

lemma div_succ:
  fixes y c :: int
  assumes "0 < c"
  shows "y div c = (y - 1) div c + (if c dvd y then 1 else 0)"
proof -
  define q where "q = (y - 1) div c"
  define r where "r = (y - 1) mod c"
  have r: "0 \<le> r" "r < c" using assms by (simp_all add: r_def)
  have e: "y = c * q + (r + 1)" by (simp add: q_def r_def)
  show ?thesis
  proof (cases "r + 1 = c")
    case True
    then have y: "y = c * (q + 1)" using e by (simp add: algebra_simps)
    then have "c dvd y" by simp
    moreover have "y div c = q + 1" using assms by (subst y) simp
    ultimately show ?thesis by (simp add: q_def)
  next
    case False
    then have lt: "r + 1 < c" using r by simp
    have "y div c = q" by (rule int_div_pos_eq [OF e]) (use r lt in simp_all)
    moreover have "y mod c = r + 1" by (rule int_mod_pos_eq [OF e]) (use r lt in simp_all)
    then have "\<not> c dvd y" using r by (simp add: dvd_eq_mod_eq_0)
    ultimately show ?thesis by (simp add: q_def)
  qed
qed

lemma days_before_year_step:
  "365 \<le> days_before_year (y + 1) - days_before_year y"
  "days_before_year (y + 1) - days_before_year y \<le> 366"
proof -
  have a: "(100::int) dvd y \<Longrightarrow> 4 dvd y" by (rule dvd_trans [of 4 100]) simp_all
  have b: "(400::int) dvd y \<Longrightarrow> 100 dvd y" by (rule dvd_trans [of 100 400]) simp_all
  have "days_before_year (y + 1) - days_before_year y =
          365 + (if 4 dvd y then 1 else 0) - (if 100 dvd y then 1 else 0) + (if 400 dvd y then 1 else 0)"
    using div_succ [of 4 y] div_succ [of 100 y] div_succ [of 400 y]
    by (simp add: days_before_year_def algebra_simps)
  then show "365 \<le> days_before_year (y + 1) - days_before_year y"
    "days_before_year (y + 1) - days_before_year y \<le> 366"
    using a b by (auto split: if_splits)
qed

lemma days_before_year_mono_aux:
  "days_before_year y + 365 * int k \<le> days_before_year (y + int k)"
proof (induction k)
  case 0
  show ?case by simp
next
  case (Suc k)
  have "365 \<le> days_before_year (y + int k + 1) - days_before_year (y + int k)"
    by (rule days_before_year_step)
  with Suc show ?case by (simp add: algebra_simps)
qed

lemma days_before_year_gap:
  assumes "y + k \<le> y'" "0 \<le> k"
  shows "days_before_year y + 365 * k \<le> days_before_year y'"
proof -
  have "days_before_year y + 365 * int (nat (y' - y)) \<le> days_before_year (y + int (nat (y' - y)))"
    by (rule days_before_year_mono_aux)
  moreover have "int (nat (y' - y)) = y' - y" using assms by simp
  ultimately have "days_before_year y + 365 * (y' - y) \<le> days_before_year y'" by simp
  moreover have "365 * k \<le> 365 * (y' - y)" using assms by simp
  ultimately show ?thesis by linarith
qed

lemma year_of_bounds:
  "days_before_year (year_of d) < d" "d \<le> days_before_year (year_of d + 1)"
proof -
  obtain n400 n100 n4 n1 n where c: "ord2cycles d = (n400, n100, n4, n1, n)"
    by (metis prod_cases5)
  note f = cycles_facts [OF c]
  have y: "year_of d = n400 * 400 + 1 + n100 * 100 + n4 * 4 + n1 - (if n1 = 4 \<or> n100 = 4 then 1 else 0)"
    by (simp add: year_of_cycles c)
  have "days_before_year (year_of d) < d \<and> d \<le> days_before_year (year_of d + 1)"
  proof (cases "n100 = 4")
    case True
    then have z: "n4 = 0" "n1 = 0" "n = 0" using f(10) by simp_all
    have y1: "year_of d = n400 * 400 + 1 + 3 * 100 + 24 * 4 + 3" using y True z by simp
    have y2: "year_of d + 1 = (n400 + 1) * 400 + 1 + 0 * 100 + 0 * 4 + 0" using y True z by simp
    have "days_before_year (year_of d) = 146097 * n400 + 36524 * 3 + 1461 * 24 + 365 * 3"
      unfolding y1 by (rule days_before_year_cycles) simp_all
    moreover have "days_before_year (year_of d + 1) = 146097 * (n400 + 1) + 36524 * 0 + 1461 * 0 + 365 * 0"
      unfolding y2 by (rule days_before_year_cycles) simp_all
    ultimately show ?thesis using f(1) True z by simp
  next
    case n100: False
    then have n100': "n100 \<le> 3" using f(3) by simp
    show ?thesis
    proof (cases "n1 = 4")
      case True
      then have z: "n = 0" using f(11) by simp
      have n4: "n4 \<le> 23" using f(12) f(5) n100' True by (cases "n4 = 24") simp_all
      have y1: "year_of d = n400 * 400 + 1 + n100 * 100 + n4 * 4 + 3" using y True by simp
      have y2: "year_of d + 1 = n400 * 400 + 1 + n100 * 100 + (n4 + 1) * 4 + 0" using y True by simp
      have "days_before_year (year_of d) = 146097 * n400 + 36524 * n100 + 1461 * n4 + 365 * 3"
        unfolding y1 by (rule days_before_year_cycles) (use f n100' in simp_all)
      moreover have "days_before_year (year_of d + 1) = 146097 * n400 + 36524 * n100 + 1461 * (n4 + 1) + 365 * 0"
        unfolding y2 by (rule days_before_year_cycles) (use f n100' n4 in simp_all)
      ultimately show ?thesis using f(1) True z by simp
    next
      case False
      then have n1': "n1 \<le> 3" using f(7) by simp
      have y1: "year_of d = n400 * 400 + 1 + n100 * 100 + n4 * 4 + n1" using y False n100 by simp
      have a: "days_before_year (year_of d) = 146097 * n400 + 36524 * n100 + 1461 * n4 + 365 * n1"
        unfolding y1 by (rule days_before_year_cycles) (use f n100' n1' in simp_all)
      have "365 \<le> days_before_year (year_of d + 1) - days_before_year (year_of d)"
        by (rule days_before_year_step)
      then show ?thesis using a f(1) f(8) f(9) by linarith
    qed
  qed
  then show "days_before_year (year_of d) < d" "d \<le> days_before_year (year_of d + 1)"
    by simp_all
qed

lemma years_diff_365:
  "year_of d - year_of (d - 365) = 0 \<or> year_of d - year_of (d - 365) = 1"
proof -
  let ?y = "year_of d" and ?y' = "year_of (d - 365)"
  have le: "?y' \<le> ?y"
  proof (rule ccontr)
    assume "\<not> ?y' \<le> ?y"
    then have "?y + 1 + 0 \<le> ?y'" by simp
    then have "days_before_year (?y + 1) + 365 * 0 \<le> days_before_year ?y'"
      by (rule days_before_year_gap) simp
    then show False using year_of_bounds(2) [of d] year_of_bounds(1) [of "d - 365"] by linarith
  qed
  have ge: "?y - 1 \<le> ?y'"
  proof (rule ccontr)
    assume "\<not> ?y - 1 \<le> ?y'"
    then have "(?y' + 1) + 1 \<le> ?y" by simp
    then have "days_before_year (?y' + 1) + 365 * 1 \<le> days_before_year ?y"
      by (rule days_before_year_gap) simp
    then show False using year_of_bounds(1) [of d] year_of_bounds(2) [of "d - 365"] by linarith
  qed
  from le ge show ?thesis by linarith
qed

section \<open>Facts about missing values and the column operations\<close>

lemma nan_eq_simps [simp]:
  "nan_eq (Some x) (Some y) \<longleftrightarrow> x = y"
  "nan_eq None b \<longleftrightarrow> False"
  "nan_eq a None \<longleftrightarrow> False"
  by (simp_all add: nan_eq_def split: option.splits)

lemma nan_in_simps [simp]:
  "nan_in (Some x) xs \<longleftrightarrow> x \<in> set xs"
  "nan_in None xs \<longleftrightarrow> False"
  by (simp_all add: nan_in_def)

lemma nan_sub_simps [simp]:
  "nan_sub (Some x) (Some y) = Some (x - y)"
  "nan_sub None b = None"
  "nan_sub a None = None"
  by (simp_all add: nan_sub_def split: option.splits)

lemma nan_le_simps [simp]:
  "nan_le (Some x) (Some y) \<longleftrightarrow> x \<le> y"
  "nan_le None b \<longleftrightarrow> False"
  "nan_le a None \<longleftrightarrow> False"
  by (simp_all add: nan_le_def split: option.splits)

lemma nan_abs_simps [simp]:
  "nan_abs (Some x) = Some \<bar>x\<bar>"
  "nan_abs None = None"
  by (simp_all add: nan_abs_def)

lemma fmul_simps [simp]:
  "fmul (Some x) (Some y) = Some (x * y)"
  "fmul None b = None"
  "fmul a None = None"
  by (simp_all add: fmul_def split: option.splits)

lemma flt_simps [simp]:
  "flt (Some x) (Some y) \<longleftrightarrow> x < y"
  "flt None b \<longleftrightarrow> False"
  "flt a None \<longleftrightarrow> False"
  by (simp_all add: flt_def split: option.splits)

lemma ts_simps [simp]:
  "ts_add (Some d) k = Some (d + k)" "ts_add None k = None"
  "ts_year (Some d) = Some (year_of d)" "ts_year None = None"
  "ts_month (Some d) = Some (month_of d)" "ts_month None = None"
  "ts_day (Some d) = Some (day_of d)" "ts_day None = None"
  "ts_weekday (Some d) = Some (weekday_of d)" "ts_weekday None = None"
  by (simp_all add: ts_add_def ts_year_def ts_month_def ts_day_def ts_weekday_def)

lemma py_range_set: "set (py_range a b) = {x. a \<le> x \<and> x < b}"
  by (auto simp: py_range_def)

lemma py_range_1_31: "py_range 1 31 = map int [1..<31]"
  by code_simp

lemma boolean_index_Nil [simp]: "boolean_index [] bs = []"
  by (simp add: boolean_index_def)

lemma boolean_index_Cons [simp]:
  "boolean_index (x # xs) (b # bs) = (if b then x # boolean_index xs bs else boolean_index xs bs)"
  by (simp add: boolean_index_def)

lemma similar_dates_Some:
  "similar_dates store_data (Some ly) = filter (spec_similar ly) store_data"
  by (induction store_data) (simp_all add: similar_dates_def spec_similar_def)

lemma similar_dates_None: "similar_dates store_data None = []"
  by (induction store_data) (simp_all add: similar_dates_def)

lemma similar_weights_Some:
  "similar_weights rs (Some (weekday_of d)) = map (spec_weight d) rs"
  by (induction rs) (simp_all add: similar_weights_def spec_weight_def)

lemma similar_weights_None: "similar_weights rs None = map (\<lambda>r. 1) rs"
  by (induction rs) (simp_all add: similar_weights_def)

lemma similar_weights_length [simp]: "length (similar_weights rs fw) = length rs"
  by (simp add: similar_weights_def)

lemma similar_weights_values: "set (similar_weights rs fw) \<subseteq> {1, 2}"
  by (induction rs) (auto simp: similar_weights_def)

lemma sum_list_ge_length:
  fixes ws :: "rat list"
  assumes "\<And>w. w \<in> set ws \<Longrightarrow> 1 \<le> w"
  shows "of_nat (length ws) \<le> sum_list ws"
  using assms
proof (induction ws)
  case Nil
  show ?case by simp
next
  case (Cons w ws)
  have "1 \<le> w" using Cons.prems by simp
  moreover have "of_nat (length ws) \<le> sum_list ws" using Cons by simp
  ultimately show ?case by simp
qed

lemma similar_weights_sum_pos:
  assumes "rs \<noteq> []"
  shows "0 < sum_list (similar_weights rs fw)"
proof -
  have "\<And>w. w \<in> set (similar_weights rs fw) \<Longrightarrow> 1 \<le> w"
    using similar_weights_values [of rs fw] by auto
  then have "of_nat (length (similar_weights rs fw)) \<le> sum_list (similar_weights rs fw)"
    by (rule sum_list_ge_length)
  then have "of_nat (length rs) \<le> sum_list (similar_weights rs fw)"
    by simp
  moreover have "(1::rat) \<le> of_nat (length rs)" using assms by (cases rs) simp_all
  ultimately show ?thesis by linarith
qed

lemma weighted_sum_map:
  "sum_list (map2 (\<lambda>x w. of_nat x * w) (map visitors rs) (map f rs))
     = (\<Sum>r\<leftarrow>rs. of_nat (visitors r) * (f r :: rat))"
  by (induction rs) simp_all

lemma np_average_similar:
  assumes "rs \<noteq> []"
  shows "np_average (map visitors rs) (similar_weights rs (Some (weekday_of d)))
           = Inr (Some (spec_weighted_mean d rs))"
proof -
  have "sum_list (similar_weights rs (Some (weekday_of d))) \<noteq> 0"
    using similar_weights_sum_pos [OF assms, of "Some (weekday_of d)"] by simp
  then show ?thesis
    by (simp add: np_average_def Let_def similar_weights_Some weighted_sum_map
        spec_weighted_mean_def)
qed

lemma np_average_no_error:
  assumes "rs \<noteq> []"
  shows "\<exists>v. np_average (map visitors rs) (similar_weights rs fw) = Inr (Some v)"
proof -
  have "sum_list (similar_weights rs fw) \<noteq> 0"
    using similar_weights_sum_pos [OF assms, of fw] by simp
  then show ?thesis by (simp add: np_average_def Let_def)
qed

lemma groupby_lookup:
  "groupby kvs g k =
     (let vs = map snd (filter (\<lambda>kv. fst kv = k) kvs)
      in if vs = [] then g k else Some ((case g k of None \<Rightarrow> [] | Some ws \<Rightarrow> ws) @ vs))"
proof (induction kvs arbitrary: g)
  case Nil
  show ?case by simp
next
  case (Cons kv kvs)
  obtain k' v where kv: "kv = (k', v)" by (cases kv)
  show ?case unfolding kv by (simp add: Cons.IH Let_def split: option.splits)
qed

lemma weekday_avgs_lookup:
  "weekday_avgs store_data w =
     (if \<exists>r\<in>set store_data. weekday_of (DATE_KST r) = w
      then Some (Some (spec_weekday_mean store_data w)) else None)"
proof -
  let ?kvs = "map (\<lambda>r. (weekday_of (DATE_KST r), visitors r)) store_data"
  let ?rs = "filter (\<lambda>r. weekday_of (DATE_KST r) = w) store_data"
  have vs: "map snd (filter (\<lambda>kv. fst kv = w) ?kvs) = map visitors ?rs"
    by (induction store_data) simp_all
  have g: "groupby ?kvs Map.empty w = (if ?rs = [] then None else Some (map visitors ?rs))"
    unfolding groupby_lookup Let_def vs by simp
  have ne: "?rs = [] \<longleftrightarrow> \<not> (\<exists>r\<in>set store_data. weekday_of (DATE_KST r) = w)"
    by (simp add: filter_empty_conv)
  show ?thesis
  proof (cases "?rs = []")
    case True
    then show ?thesis using g ne by (simp add: weekday_avgs_def)
  next
    case False
    then have "series_mean (map visitors ?rs) = Some (spec_weekday_mean store_data w)"
      by (simp add: series_mean_def spec_weekday_mean_def)
    then show ?thesis using g ne False by (simp add: weekday_avgs_def)
  qed
qed

section \<open>Facts about one prediction and about the loop\<close>

lemma seasonal_factor_Some: "seasonal_factor (Some d) = spec_seasonal_factor d"
  by (auto simp: seasonal_factor_def spec_seasonal_factor_def py_range_set)

lemma seasonal_factor_None: "seasonal_factor None = 1"
  by (simp add: seasonal_factor_def)

lemma pred_value_similar:
  assumes "filter (spec_similar (d - 365)) store_data \<noteq> []"
  shows "pred_value store_data wd_avgs rec_avg (Some d) =
           Inr (Some (spec_weighted_mean d (filter (spec_similar (d - 365)) store_data)
                        * (11 / 10) powi (year_of d - year_of (d - 365))
                        * spec_seasonal_factor d))"
  using assms
  by (simp add: pred_value_def Let_def similar_dates_Some np_average_similar
      seasonal_factor_Some)

lemma pred_value_no_similar:
  assumes "filter (spec_similar (d - 365)) store_data = []"
  shows "pred_value store_data wd_avgs rec_avg (Some d) =
           Inr (fmul (case wd_avgs (weekday_of d) of
                        Some avg \<Rightarrow> avg
                      | None \<Rightarrow> fmul rec_avg (Some (9 / 10)))
                     (Some (spec_seasonal_factor d)))"
  using assms
  by (simp add: pred_value_def Let_def similar_dates_Some seasonal_factor_Some)

lemma pred_value_NaT:
  "pred_value store_data wd_avgs rec_avg None = Inr (fmul (fmul rec_avg (Some (9 / 10))) (Some 1))"
  by (simp add: pred_value_def Let_def similar_dates_None seasonal_factor_None)

lemma pred_value_no_error: "\<exists>p. pred_value store_data wd_avgs rec_avg future_date = Inr p"
proof (cases future_date)
  case None
  then show ?thesis by (simp add: pred_value_NaT)
next
  case (Some d)
  show ?thesis
  proof (cases "filter (spec_similar (d - 365)) store_data = []")
    case True
    then show ?thesis unfolding Some by (simp add: pred_value_no_similar)
  next
    case False
    then show ?thesis unfolding Some by (simp add: pred_value_similar)
  qed
qed

lemma forecast_loop_eq:
  "forecast_loop store_data wd_avgs rec_avg fdates acc =
     Inr (acc @ map (\<lambda>fd. floor_correction (projr (pred_value store_data wd_avgs rec_avg fd)) rec_avg)
                  fdates)"
proof (induction fdates arbitrary: acc)
  case Nil
  show ?case by simp
next
  case (Cons fd fdates)
  obtain p where p: "pred_value store_data wd_avgs rec_avg fd = Inr p"
    using pred_value_no_error by blast
  show ?case by (simp add: p Cons.IH)
qed

lemma forecaster_eq:
  "forecaster store_data =
     Inr (future_dates store_data,
          map (\<lambda>fd. floor_correction
                      (projr (pred_value store_data (weekday_avgs store_data)
                                (recent_avg (map visitors store_data)) fd))
                      (recent_avg (map visitors store_data)))
              (future_dates store_data))"
  by (simp add: forecaster_def forecast_loop_eq)

lemma series_max_Max:
  assumes "ds \<noteq> []"
  shows "series_max ds = Some (Max (set ds))"
proof -
  obtain d rest where ds: "ds = d # rest" using assms by (cases ds) auto
  show ?thesis unfolding ds using Max.set_eq_fold [of d rest] by (simp add: series_max_def)
qed

lemma future_dates_nonempty:
  assumes "store_data \<noteq> []"
  shows "future_dates store_data
           = map (\<lambda>i. Some (Max (DATE_KST ` set store_data) + int i)) [1..<31]"
proof -
  have "series_max (map DATE_KST store_data) = Some (Max (DATE_KST ` set store_data))"
    using assms series_max_Max [of "map DATE_KST store_data"] by simp
  then show ?thesis by (simp add: future_dates_def Let_def py_range_1_31 comp_def)
qed

lemma future_dates_empty: "future_dates [] = replicate 30 None"
proof -
  have "ts_add None = (\<lambda>i. None)"
    by (rule ext) simp
  then show ?thesis
    by (simp add: future_dates_def Let_def series_max_def py_range_1_31 map_replicate_const
        comp_def)
qed

lemma recent_avg_spec:
  assumes "store_data \<noteq> []"
  shows "recent_avg (map visitors store_data) = Some (spec_recent_avg store_data)"
proof (cases "30 \<le> length store_data")
  case True
  then have "drop (length store_data - 30) store_data \<noteq> []" using assms by simp
  moreover have "length (drop (length store_data - 30) store_data) = 30" using True by simp
  ultimately show ?thesis using True
    by (simp add: recent_avg_def Let_def py_tail_def series_mean_def spec_recent_avg_def drop_map)
next
  case False
  then show ?thesis using assms
    by (simp add: recent_avg_def Let_def series_mean_def spec_recent_avg_def)
qed

lemma spec_recent_avg_nonneg: "0 \<le> spec_recent_avg store_data"
  by (simp add: spec_recent_avg_def)

section \<open>Evaluating the calendar on concrete dates\<close>

lemmas calendar_eval =
  year_of_def month_of_def day_of_def weekday_of_def ord2ymd_def ord2cycles_def Let_def
  days_before_month_def days_in_month_def

lemma example_dates:
  "ord2ymd 738886 = (2024, 1, 1)" "ord2ymd 738887 = (2024, 1, 2)"
  "ord2ymd 738888 = (2024, 1, 3)" "ord2ymd 738890 = (2024, 1, 5)"
  "ord2ymd 738905 = (2024, 1, 20)" "ord2ymd 739251 = (2024, 12, 31)"
  "ord2ymd 739252 = (2025, 1, 1)" "ord2ymd 739258 = (2025, 1, 7)"
  "ord2ymd 738893 = (2024, 1, 8)"
  by (simp_all add: calendar_eval)

lemma example_dates_more:
  "ord2ymd 738914 = (2024, 1, 29)" "ord2ymd 739279 = (2025, 1, 28)" "weekday_of 739279 = 1"
  by (simp_all add: calendar_eval)

lemma example_weekdays:
  "weekday_of 738888 = 2" "weekday_of 738890 = 4" "weekday_of 738905 = 5"
  "weekday_of 739251 = 1" "weekday_of 739252 = 2" "weekday_of 739258 = 1"
  by (simp_all add: weekday_of_def)

lemmas example_eval =
  example_store_def example_single_def spec_similar_def spec_weight_def
  spec_weighted_mean_def spec_seasonal_factor_def spec_weekday_mean_def
  year_of_def month_of_def day_of_def example_dates example_weekdays

section \<open>The claims\<close>

text \<open>
  C8. The weighted-mean step can never divide by zero: in the branch where it runs the
  similar records are not empty and every weight is 1 or 2, so the weights sum to a
  positive number and \<open>np_average\<close> returns a value; no prediction and no forecast ends
  in a \<open>ZeroDivisionError\<close>.
\<close>

theorem weighted_mean_never_divides_by_zero:
  "(similar \<noteq> [] \<longrightarrow>
      set (similar_weights similar future_weekday) \<subseteq> {1, 2}
      \<and> 0 < sum_list (similar_weights similar future_weekday)
      \<and> (\<exists>v. np_average (map visitors similar) (similar_weights similar future_weekday)
               = Inr (Some v)))
   \<and> pred_value store_data wd_avgs rec_avg future_date \<noteq> Inl ZeroDivisionError
   \<and> forecaster store_data \<noteq> Inl ZeroDivisionError"
proof -
  have "pred_value store_data wd_avgs rec_avg future_date \<noteq> Inl ZeroDivisionError"
    using pred_value_no_error [of store_data wd_avgs rec_avg future_date] by auto
  moreover have "forecaster store_data \<noteq> Inl ZeroDivisionError"
    by (simp add: forecaster_eq)
  ultimately show ?thesis
    using similar_weights_values [of similar future_weekday]
      similar_weights_sum_pos [of similar future_weekday]
      np_average_no_error [of similar future_weekday]
    by blast
qed

theorem weighted_mean_never_divides_by_zero_witness:
  "take 2 example_store \<noteq> []
   \<and> similar_weights (take 2 example_store) (Some 2) = [2, 1]
   \<and> 0 < sum_list (similar_weights (take 2 example_store) (Some 2))
   \<and> (\<exists>v. np_average (map visitors (take 2 example_store))
             (similar_weights (take 2 example_store) (Some 2)) = Inr (Some v))"
  using weighted_mean_never_divides_by_zero [of "take 2 example_store" "Some 2"]
  by (simp add: example_store_def similar_weights_def example_weekdays)



text \<open>
  C4, as amended. In the branch with similar records the prediction before the floor
  correction is the weighted mean times the trend factor times the seasonal factor; the
  trend factor is 1.1 to the power of the difference of the years of the target date and
  of the date 365 days before it, a difference that is 0 or 1 and never 2; the seasonal
  factor is 1.3 from December 20 to 25, 1.2 on days 15 to 30 of July and August, and 1
  otherwise.
\<close>

theorem similar_branch_prediction:
  assumes "filter (spec_similar (d - 365)) store_data \<noteq> []"
  shows "pred_value store_data wd_avgs rec_avg (Some d) =
           Inr (Some (spec_weighted_mean d (filter (spec_similar (d - 365)) store_data)
                        * (11 / 10) powi (year_of d - year_of (d - 365))
                        * spec_seasonal_factor d))
         \<and> (year_of d - year_of (d - 365) = 0 \<or> year_of d - year_of (d - 365) = 1)"
  using assms years_diff_365 [of d] by (simp add: pred_value_similar)

theorem similar_branch_prediction_witness:
  "filter (spec_similar (739251 - 365)) example_store \<noteq> []
   \<and> pred_value example_store Map.empty None (Some 739251) = Inr (Some 200)
   \<and> year_of 739251 - year_of (739251 - 365) = 0
   \<and> pred_value example_store Map.empty None (Some 739252) = Inr (Some (550 / 3))
   \<and> year_of 739252 - year_of (739252 - 365) = 1"
  using similar_branch_prediction [of 739251 example_store Map.empty None]
    similar_branch_prediction [of 739252 example_store Map.empty None]
  by (simp add: example_eval)

text \<open>
  The claim as stated says that the exponent can be 2 near a year boundary. It cannot:
  no date lies two calendar years after the date 365 days before it.
\<close>

theorem trend_exponent_two_counterexample:
  "\<not> (\<exists>d. year_of d - year_of (d - 365) = 2)"
proof
  assume "\<exists>d. year_of d - year_of (d - 365) = 2"
  then obtain d where "year_of d - year_of (d - 365) = 2" ..
  then show False using years_diff_365 [of d] by simp
qed

text \<open>
  C5. When no record is similar, the prediction before the floor correction is the base
  prediction times the seasonal factor, with no trend factor; the base prediction is the
  mean of the visitor counts of the history on the target's weekday when the history has
  that weekday, and 0.9 times the recent average otherwise.
\<close>

theorem no_similar_branch_prediction:
  assumes "filter (spec_similar (d - 365)) store_data = []"
  shows "pred_value store_data (weekday_avgs store_data) rec_avg (Some d) =
           Inr (fmul (if \<exists>r\<in>set store_data. weekday_of (DATE_KST r) = weekday_of d
                      then Some (spec_weekday_mean store_data (weekday_of d))
                      else fmul rec_avg (Some (9 / 10)))
                     (Some (spec_seasonal_factor d)))"
  using assms by (simp add: pred_value_no_similar weekday_avgs_lookup)

theorem no_similar_branch_prediction_witness:
  "filter (spec_similar (739258 - 365)) example_single = []
   \<and> pred_value example_single (weekday_avgs example_single) (Some 100) (Some 739258)
       = Inr (Some 100)
   \<and> filter (spec_similar (739252 - 365)) example_single = []
   \<and> pred_value example_single (weekday_avgs example_single) (Some 100) (Some 739252)
       = Inr (Some 90)"
  using no_similar_branch_prediction [of 739258 example_single "Some 100"]
    no_similar_branch_prediction [of 739252 example_single "Some 100"]
  by (simp add: example_eval)

lemma pred_value_defined:
  assumes "store_data \<noteq> []"
  shows "\<exists>raw. pred_value store_data (weekday_avgs store_data)
                 (recent_avg (map visitors store_data)) (Some d) = Inr (Some raw)"
proof (cases "filter (spec_similar (d - 365)) store_data = []")
  case True
  let ?ra = "recent_avg (map visitors store_data)"
  have "\<exists>b. (case weekday_avgs store_data (weekday_of d) of
               Some avg \<Rightarrow> avg | None \<Rightarrow> fmul ?ra (Some (9 / 10))) = Some b"
  proof (cases "\<exists>r\<in>set store_data. weekday_of (DATE_KST r) = weekday_of d")
    case True
    then show ?thesis by (simp add: weekday_avgs_lookup)
  next
    case False
    then have "(case weekday_avgs store_data (weekday_of d) of
                  Some avg \<Rightarrow> avg | None \<Rightarrow> fmul ?ra (Some (9 / 10)))
                = Some (spec_recent_avg store_data * (9 / 10))"
      by (simp add: weekday_avgs_lookup recent_avg_spec [OF assms])
    then show ?thesis by blast
  qed
  then obtain b where "(case weekday_avgs store_data (weekday_of d) of
               Some avg \<Rightarrow> avg | None \<Rightarrow> fmul ?ra (Some (9 / 10))) = Some b" ..
  then have "pred_value store_data (weekday_avgs store_data) ?ra (Some d)
               = Inr (Some (b * spec_seasonal_factor d))"
    by (simp only: pred_value_no_similar [OF True] fmul_simps)
  then show ?thesis by blast
next
  case False
  then show ?thesis by (simp add: pred_value_similar)
qed

lemma floor_correction_Some:
  "floor_correction (Some raw) (Some ra) = Some (if raw < ra * (5 / 10) then ra * (8 / 10) else raw)"
  by (simp add: floor_correction_def)

lemma floor_bound:
  fixes ra raw :: rat
  assumes "0 \<le> ra"
  shows "ra * (5 / 10) \<le> (if raw < ra * (5 / 10) then ra * (8 / 10) else raw)"
  using assms by auto

lemma future_dates_length: "length (future_dates store_data) = 30"
  by (simp add: future_dates_def py_range_1_31)

text \<open>
  C1. For every non-empty history the forecast has 30 points, one predicted value per
  date, and the dates are the 30 consecutive days after the last observed date, in
  strictly increasing order.
\<close>

theorem thirty_consecutive_forecast_dates:
  assumes "store_data \<noteq> []"
  shows "\<exists>fpreds.
           forecaster store_data =
             Inr (map (\<lambda>i. Some (Max (DATE_KST ` set store_data) + int i)) [1..<31], fpreds)
           \<and> length fpreds = 30
           \<and> sorted_wrt (<) (map (\<lambda>i. Max (DATE_KST ` set store_data) + int i) [1..<31])"
proof -
  have "sorted_wrt (<) (map (\<lambda>i. Max (DATE_KST ` set store_data) + int i) [1..<31])"
    by (simp add: sorted_wrt_map del: upt_Suc)
  moreover have "length (future_dates store_data) = 30"
    by (rule future_dates_length)
  ultimately show ?thesis
    by (simp add: forecaster_eq future_dates_nonempty [OF assms] del: upt_Suc)
qed

theorem thirty_consecutive_forecast_dates_witness:
  "example_single \<noteq> []
   \<and> (\<exists>fpreds. forecaster example_single = Inr (map (\<lambda>i. Some (739251 + int i)) [1..<31], fpreds)
        \<and> length fpreds = 30)"
proof -
  have ne: "example_single \<noteq> []"
    by (simp add: example_single_def)
  have m: "Max (DATE_KST ` set example_single) = 739251"
    by (simp add: example_single_def)
  from thirty_consecutive_forecast_dates [OF ne] obtain fpreds where
    "forecaster example_single = Inr (map (\<lambda>i. Some (739251 + int i)) [1..<31], fpreds)"
    "length fpreds = 30"
    unfolding m by blast
  with ne show ?thesis by blast
qed






section \<open>The export and the page\<close>

lemma forecaster_lengths:
  assumes "forecaster store_data = Inr (fdates, fpreds)"
  shows "length fdates = 30" "length fpreds = 30"
  using assms by (auto simp: forecaster_eq future_dates_length)

lemma df_rows_two_columns:
  assumes "length xs = n" "length ys = n"
  shows "df_rows [(a, xs), (b, ys)] = map (\<lambda>i. [xs ! i, ys ! i]) [0..<n]"
  using assms by (simp add: df_rows_def)

lemma csv_lines_two_columns:
  assumes "length fdates = n" "length fpreds = n"
  shows "csv_lines fmt [(''date'', map TsCell fdates), (''visitors'', map NumCell fpreds)]
           = ''date,visitors'' #
             map (\<lambda>i. fmt (TsCell (fdates ! i)) @ '','' @ fmt (NumCell (fpreds ! i))) [0..<n]"
proof -
  have "df_rows [(''date'', map TsCell fdates), (''visitors'', map NumCell fpreds)]
          = map (\<lambda>i. [map TsCell fdates ! i, map NumCell fpreds ! i]) [0..<n]"
    by (rule df_rows_two_columns) (simp_all add: assms)
  also have "\<dots> = map (\<lambda>i. [TsCell (fdates ! i), NumCell (fpreds ! i)]) [0..<n]"
    using assms by simp
  finally show ?thesis by (simp add: csv_lines_def comp_def)
qed

lemma tab3_rendered:
  assumes "forecaster (select_store visits_df pred_store) = Inr (fdates, fpreds)"
  shows "tab3 fmt visits_df pred_store =
           Rendered
             [(''date'', map TsCell fdates), (''visitors'', map NumCell fpreds),
              (''type'', replicate (length fdates) (StrCell ''predicted'')),
              (''day_of_week'', day_of_week_column fdates)]
             (to_csv fmt [(''date'', map TsCell fdates), (''visitors'', map NumCell fpreds)])"
  using assms by (simp add: tab3_def Let_def future_data_def df_setitem_def)




text \<open>
  C10. The forecast reads the unfiltered table and keeps the selected store's records
  only: the date range and the store selection of the sidebar do not change it, and two
  tables with the same records of the selected store, in the same order, give the same
  forecast, whatever records of other stores they hold.
\<close>

theorem forecast_ignores_filters_and_other_stores:
  "forecast_output (dashboard fmt visits_df date_range selected_stores pred_store)
     = forecast_output (dashboard fmt visits_df date_range' selected_stores' pred_store)
   \<and> (filter (\<lambda>r. DEP_NAME r = pred_store) visits_df
         = filter (\<lambda>r. DEP_NAME r = pred_store) visits_df'
       \<longrightarrow> forecast_output (dashboard fmt visits_df date_range selected_stores pred_store)
           = forecast_output (dashboard fmt visits_df' date_range selected_stores pred_store))"
  by (simp add: dashboard_def tab3_def select_store_def)

theorem forecast_ignores_filters_and_other_stores_witness:
  "filtered_visits (example_store @ [\<lparr>DATE_KST = 739251, DEP_NAME = ''B'', visitors = 7\<rparr>])
       [739251, 739251] [''B'']
     = [\<lparr>DATE_KST = 739251, DEP_NAME = ''B'', visitors = 7\<rparr>]
   \<and> forecast_output (dashboard (\<lambda>c. ''x'')
         (example_store @ [\<lparr>DATE_KST = 739251, DEP_NAME = ''B'', visitors = 7\<rparr>])
         [739251, 739251] [''B''] ''A'')
     = forecast_output (dashboard (\<lambda>c. ''x'')
         (example_store @ [\<lparr>DATE_KST = 739251, DEP_NAME = ''B'', visitors = 7\<rparr>]) [] [] ''A'')
   \<and> forecast_output (dashboard (\<lambda>c. ''x'')
         (example_store @ [\<lparr>DATE_KST = 739251, DEP_NAME = ''B'', visitors = 7\<rparr>])
         [739251, 739251] [''B''] ''A'')
     = forecast_output (dashboard (\<lambda>c. ''x'') example_store [739251, 739251] [''B''] ''A'')"
proof -
  let ?b = "\<lparr>DATE_KST = 739251, DEP_NAME = ''B'', visitors = 7\<rparr>"
  note t = forecast_ignores_filters_and_other_stores
    [of "\<lambda>c. ''x''" "example_store @ [?b]" "[739251, 739251]" "[''B'']" "''A''" "[]" "[]"
        example_store]
  have same: "filter (\<lambda>r. DEP_NAME r = ''A'') (example_store @ [?b])
                = filter (\<lambda>r. DEP_NAME r = ''A'') example_store"
    by simp
  have fv: "filtered_visits (example_store @ [?b]) [739251, 739251] [''B''] = [?b]"
    by (simp add: example_store_def filtered_visits_def Let_def)
  from t same fv show ?thesis by blast
qed

end
